theory Spec2Isabelle
  imports Complex_Main
begin

section \<open>Values of the JavaScript runtime\<close>

text \<open>
  A JavaScript number is an IEEE 754 double. A finite double is modelled by the real
  number it denotes, and an arithmetic operation by the exact operation followed by
  rounding to the nearest double, ties to the even significand (\<open>dbl\<close>). A decimal
  literal of the source such as \<open>0.10\<close> denotes \<open>dbl 0.10\<close>. Infinities,
  subnormal numbers and the sign of zero are not modelled; none arises from the
  amounts, ratings and multipliers below. Where a value is only compared with a
  threshold that rounding cannot cross, or is a sum, difference or product of
  integers below \<open>2 ^ 53\<close>, or a multiplication by 0.5, the operation is written
  without \<open>dbl\<close>.

  Besides an ordinary number a request payload or an arithmetic operation can
  produce \<open>undefined\<close>, \<open>null\<close> and \<open>NaN\<close>. Instants are milliseconds since
  the epoch, as \<open>Date\<close> subtraction yields them. Identifiers and status values are
  strings, as in the source.
\<close>

definition round_half_even :: "real \<Rightarrow> int" where
  "round_half_even x =
     (let f = \<lfloor>x\<rfloor>
      in if x - of_int f < 1 / 2 then f
         else if x - of_int f > 1 / 2 then f + 1
         else if even f then f else f + 1)"

text \<open>\<open>scale m e\<close> brings a positive \<open>m\<close> into the range of 53-bit significands,
  from \<open>2 ^ 52\<close> up to \<open>2 ^ 53\<close> exclusive, keeping \<open>m * 2 ^ e\<close> the same.\<close>

function scale :: "real \<Rightarrow> int \<Rightarrow> real \<times> int" where
  "scale m e =
     (if m \<le> 0 then (m, e)
      else if m < 2 ^ 52 then scale (m * 2) (e - 1)
      else if 2 ^ 53 \<le> m then scale (m / 2) (e + 1)
      else (m, e))"
  by pat_completeness auto
termination
proof (relation "measure (\<lambda>(m, e). nat \<bar>\<lfloor>log 2 m\<rfloor> - 52\<bar>)")
  show "wf (measure (\<lambda>(m :: real, e :: int). nat \<bar>\<lfloor>log 2 m\<rfloor> - 52\<bar>))"
    by simp
next
  fix m :: real and e :: int
  assume pos: "\<not> m \<le> 0" and small: "m < 2 ^ 52"
  have "log 2 m < 52"
    using pos small by (simp add: log_less_iff)
  then have 1: "\<lfloor>log 2 m\<rfloor> < 52"
    by (simp add: floor_less_iff)
  have "log 2 (m * 2) = log 2 m + 1"
    using pos by (simp add: log_mult)
  then have 2: "\<lfloor>log 2 (m * 2)\<rfloor> = \<lfloor>log 2 m\<rfloor> + 1"
    by simp
  show "((m * 2, e - 1), (m, e)) \<in> measure (\<lambda>(m, e). nat \<bar>\<lfloor>log 2 m\<rfloor> - 52\<bar>)"
    using 1 unfolding in_measure prod.case 2 by linarith
next
  fix m :: real and e :: int
  assume pos: "\<not> m \<le> 0" and big: "2 ^ 53 \<le> m"
  have "53 \<le> log 2 m"
    using pos big by (simp add: le_log_iff)
  then have 1: "53 \<le> \<lfloor>log 2 m\<rfloor>"
    by (simp add: le_floor_iff)
  have "log 2 (m / 2) = log 2 m - 1"
    using pos by (simp add: log_divide)
  then have 2: "\<lfloor>log 2 (m / 2)\<rfloor> = \<lfloor>log 2 m\<rfloor> - 1"
    by simp
  show "((m / 2, e + 1), (m, e)) \<in> measure (\<lambda>(m, e). nat \<bar>\<lfloor>log 2 m\<rfloor> - 52\<bar>)"
    using 1 unfolding in_measure prod.case 2 by linarith
qed

declare scale.simps [simp del]

definition dbl :: "real \<Rightarrow> real" where
  "dbl x = (case scale \<bar>x\<bar> 0 of (m, e) \<Rightarrow> sgn x * real_of_int (round_half_even m) * 2 powi e)"

definition fadd :: "real \<Rightarrow> real \<Rightarrow> real" where
  "fadd x y = dbl (x + y)"

definition fmul :: "real \<Rightarrow> real \<Rightarrow> real" where
  "fmul x y = dbl (x * y)"

definition fdiv :: "real \<Rightarrow> real \<Rightarrow> real" where
  "fdiv x y = dbl (x / y)"

datatype jsval = Undefined | Null | NaN | Num real

type_synonym ident = string

text \<open>\<open>ToNumber\<close>: \<open>undefined\<close> converts to \<open>NaN\<close>, \<open>null\<close> to 0;
  \<open>None\<close> stands for \<open>NaN\<close>.\<close>

fun toNumber :: "jsval \<Rightarrow> real option" where
  "toNumber Undefined = None"
| "toNumber Null = Some 0"
| "toNumber NaN = None"
| "toNumber (Num r) = Some r"

text \<open>The relational operators \<open><\<close> and \<open>>\<close> on numbers: false as soon as
  one operand is \<open>NaN\<close>.\<close>

definition js_lt :: "jsval \<Rightarrow> jsval \<Rightarrow> bool" where
  "js_lt a b = (case (toNumber a, toNumber b) of (Some x, Some y) \<Rightarrow> x < y | _ \<Rightarrow> False)"

definition js_gt :: "jsval \<Rightarrow> jsval \<Rightarrow> bool" where
  "js_gt a b = (case (toNumber a, toNumber b) of (Some x, Some y) \<Rightarrow> x > y | _ \<Rightarrow> False)"

text \<open>Numeric \<open>+\<close>, \<open>*\<close> and \<open>/\<close> (no operand is a string here); \<open>NaN\<close>
  propagates. The only divisors in the modelled code are a review count plus one and
  the constant 10.\<close>

definition js_of :: "real option \<Rightarrow> jsval" where
  "js_of r = (case r of None \<Rightarrow> NaN | Some x \<Rightarrow> Num x)"

definition js_add :: "jsval \<Rightarrow> jsval \<Rightarrow> jsval" where
  "js_add a b = js_of (case (toNumber a, toNumber b) of (Some x, Some y) \<Rightarrow> Some (fadd x y) | _ \<Rightarrow> None)"

definition js_mul :: "jsval \<Rightarrow> jsval \<Rightarrow> jsval" where
  "js_mul a b = js_of (case (toNumber a, toNumber b) of (Some x, Some y) \<Rightarrow> Some (fmul x y) | _ \<Rightarrow> None)"

definition js_div :: "jsval \<Rightarrow> jsval \<Rightarrow> jsval" where
  "js_div a b = js_of (case (toNumber a, toNumber b) of (Some x, Some y) \<Rightarrow> Some (fdiv x y) | _ \<Rightarrow> None)"

text \<open>\<open>Math.round\<close> rounds to the nearest integer, halves upwards; the result is
  an integer and needs no further rounding.\<close>

definition math_round :: "real \<Rightarrow> real" where
  "math_round x = of_int \<lfloor>x + 1 / 2\<rfloor>"

definition js_round :: "jsval \<Rightarrow> jsval" where
  "js_round a = js_of (map_option math_round (toNumber a))"

text \<open>A row update travels as JSON: a key whose value is \<open>undefined\<close> is left out
  of the body, so the column keeps its value, and \<open>NaN\<close> is written as
  \<open>null\<close>. \<open>json_column v old\<close> is the column after an update built from
  \<open>v\<close>.\<close>

definition json_column :: "jsval \<Rightarrow> jsval \<Rightarrow> jsval" where
  "json_column v old = (case v of Undefined \<Rightarrow> old | NaN \<Rightarrow> Null | _ \<Rightarrow> v)"

section \<open>Bookings (models/Booking.js)\<close>

record booking =
  userId :: ident
  guideId :: "ident option"
  driverId :: "ident option"
  btype :: string
  startDate :: int
  endDate :: int
  duration :: real
  totalAmount :: real
  commission :: real
  status :: string
  cancelledAt :: "int option"
  cancelledBy :: "ident option"
  cancellationReason :: "string option"
  refundAmount :: "real option"
  rating :: jsval
  review :: "string option"
  completedAt :: "int option"

text \<open>\<open>Booking.confirm\<close>, \<open>start\<close>, \<open>complete\<close>, \<open>cancel\<close> and
  \<open>addRating\<close> write the columns they name and nothing else (the
  \<open>updated_at\<close> stamp is not modelled). Each sends the update to the datastore
  and then assigns the same values to the booking object that the response is built
  from.\<close>

definition confirm :: "booking \<Rightarrow> booking" where
  "confirm b = b\<lparr>status := ''confirmed''\<rparr>"

definition start :: "booking \<Rightarrow> booking" where
  "start b = b\<lparr>status := ''in_progress''\<rparr>"

definition complete :: "int \<Rightarrow> booking \<Rightarrow> booking" where
  "complete now b = b\<lparr>status := ''completed'', completedAt := Some now\<rparr>"

definition cancel :: "int \<Rightarrow> ident \<Rightarrow> string option \<Rightarrow> real \<Rightarrow> booking \<Rightarrow> booking" where
  "cancel now by reason refund b =
     b\<lparr>status := ''cancelled'', cancelledAt := Some now, cancelledBy := Some by,
       cancellationReason := reason, refundAmount := Some refund\<rparr>"

text \<open>\<open>addRating(rating, review = null)\<close>: the booking object after the call, and
  the stored row after its update. The two differ when the rating is
  \<open>undefined\<close>.\<close>

definition addRating :: "jsval \<Rightarrow> string option \<Rightarrow> booking \<Rightarrow> booking" where
  "addRating r rv b = b\<lparr>rating := r, review := rv\<rparr>"

definition addRating_row :: "jsval \<Rightarrow> string option \<Rightarrow> booking \<Rightarrow> booking" where
  "addRating_row r rv b = b\<lparr>rating := json_column r (rating b), review := rv\<rparr>"

text \<open>The \<open>rating\<close> column of \<open>bookings\<close> is declared \<open>INTEGER\<close>: the
  datastore refuses an update that sends a number with a fractional part, and
  \<open>Booking.update\<close> throws the error it is answered with.\<close>

definition integer_column_takes :: "jsval \<Rightarrow> bool" where
  "integer_column_takes v = (case v of Num x \<Rightarrow> x = of_int \<lfloor>x\<rfloor> | _ \<Rightarrow> True)"

definition hoursUntilStart :: "int \<Rightarrow> booking \<Rightarrow> real" where
  "hoursUntilStart now b = real_of_int (startDate b - now) / (1000 * 60 * 60)"

definition canBeCancelled :: "int \<Rightarrow> booking \<Rightarrow> bool" where
  "canBeCancelled now b \<longleftrightarrow>
     status b \<in> {''pending'', ''confirmed''} \<and> hoursUntilStart now b > 2"

definition calculateRefundAmount :: "int \<Rightarrow> booking \<Rightarrow> real" where
  "calculateRefundAmount now b =
     (if status b \<noteq> ''cancelled'' then 0
      else if hoursUntilStart now b > 24 then totalAmount b
      else if hoursUntilStart now b > 2 then totalAmount b * 0.5
      else 0)"


text \<open>A JavaScript condition on an identifier (\<open>if (this.guideId)\<close>) holds for a
  non-empty string; \<open>null\<close> and the empty string are falsy.\<close>

definition truthy :: "ident option \<Rightarrow> bool" where
  "truthy x = (case x of None \<Rightarrow> False | Some s \<Rightarrow> s \<noteq> [])"

section \<open>Business utilities (utils/helpers.js)\<close>

definition calculateGuideCommission :: "real \<Rightarrow> bool \<Rightarrow> real" where
  "calculateGuideCommission amount isVerified =
     (let commissionRate = (if isVerified then dbl 0.10 else dbl 0.15)
      in fmul amount commissionRate)"

definition calculateDriverCommission :: "real \<Rightarrow> real" where
  "calculateDriverCommission amount =
     (let commissionRate = dbl 0.05
      in fmul amount commissionRate)"

text \<open>\<open>calculateSurgeMultiplier(time, weather, demand)\<close> reads the weekday from
  the wall clock, with one \<open>new Date().getDay()\<close> on each side of its \<open>||\<close>
  (0 = Sunday, 6 = Saturday). The answers of the two reads are the explicit
  parameters \<open>clockDay1\<close> and \<open>clockDay2\<close>; the second read is only made, and
  only used, when the first is not 0.\<close>

definition calculateSurgeMultiplier :: "nat \<Rightarrow> nat \<Rightarrow> real \<Rightarrow> string \<Rightarrow> real \<Rightarrow> real" where
  "calculateSurgeMultiplier clockDay1 clockDay2 time weather demand =
     (let m0 = 1.0;
          m1 = (if time \<ge> 7 \<and> time \<le> 9 then fadd m0 (dbl 0.2) else m0);
          m2 = (if time \<ge> 17 \<and> time \<le> 19 then fadd m1 (dbl 0.2) else m1);
          m3 = (if clockDay1 = 0 \<or> clockDay2 = 6 then fadd m2 (dbl 0.1) else m2);
          m4 = (if weather = ''rain'' then fadd m3 (dbl 0.15) else m3);
          m5 = (if weather = ''storm'' then fadd m4 (dbl 0.25) else m4);
          m6 = (if demand > dbl 0.8 then fadd m5 (dbl 0.3)
                else if demand > dbl 0.6 then fadd m5 (dbl 0.15) else m5)
      in min m6 2.0)"

text \<open>\<open>Booking.calculateCommission\<close>: the guide's share is always computed with
  \<open>isVerified = true\<close>; the booking does not look at the guide.\<close>

definition calculateCommission :: "booking \<Rightarrow> real" where
  "calculateCommission b =
     (let c0 = 0;
          c1 = (if truthy (guideId b)
                then fadd c0 (calculateGuideCommission (totalAmount b) True) else c0);
          c2 = (if truthy (driverId b)
                then fadd c1 (calculateDriverCommission (totalAmount b)) else c1)
      in c2)"

definition updateCommission :: "booking \<Rightarrow> booking" where
  "updateCommission b = b\<lparr>commission := calculateCommission b\<rparr>"

section \<open>Providers (models/Guide.js, models/Driver.js)\<close>

text \<open>The working hours are held as the hour numbers that \<open>parseInt\<close> reads from
  the \<open>HH:MM\<close> strings.\<close>

record guide =
  g_isAvailable :: bool
  g_availableDays :: "string list"
  g_workingStart :: int
  g_workingEnd :: int
  g_rating :: jsval
  g_totalReviews :: nat
  g_totalBookings :: nat
  g_verificationStatus :: string

record driver =
  d_userId :: ident
  d_isOnline :: bool
  d_baseRate :: real
  d_perKmRate :: real
  d_perMinuteRate :: real
  d_availableDays :: "string list"
  d_workingStart :: int
  d_workingEnd :: int
  d_rating :: jsval
  d_totalReviews :: nat
  d_totalRides :: nat
  d_verificationStatus :: string

datatype failure = NotFound | AccessDenied | BadRequest string | ServerError string

text \<open>\<open>startDate.toLocaleDateString('en-US', {weekday: 'lowercase'})\<close>: the values
  of the \<open>weekday\<close> option are \<open>narrow\<close>, \<open>short\<close> and \<open>long\<close>, and the
  runtime raises a \<open>RangeError\<close> for any other, so the call raises for every
  instant. \<open>getHours()\<close> is the hour of the day, here of a server whose zone is
  UTC.\<close>

definition toLocaleDateString_weekday_lowercase :: "int \<Rightarrow> failure + string" where
  "toLocaleDateString_weekday_lowercase t = Inl (ServerError ''RangeError'')"

definition getHours :: "int \<Rightarrow> int" where
  "getHours t = (t div 3600000) mod 24"

text \<open>\<open>Guide.isAvailableForBooking(startTime, duration)\<close> and
  \<open>Driver.isAvailableForRide(startTime, duration)\<close>. Neither reads a booking.\<close>

definition isAvailableForBooking :: "guide \<Rightarrow> int \<Rightarrow> real \<Rightarrow> failure + bool" where
  "isAvailableForBooking g startTime dur =
     (if \<not> g_isAvailable g then Inr False
      else case toLocaleDateString_weekday_lowercase startTime of
        Inl e \<Rightarrow> Inl e
      | Inr dayOfWeek \<Rightarrow>
          if dayOfWeek \<notin> set (g_availableDays g) then Inr False
          else (let startHour = getHours startTime;
                    endHour = fadd (real_of_int startHour) dur
                in Inr (startHour \<ge> g_workingStart g \<and> endHour \<le> real_of_int (g_workingEnd g))))"

definition isAvailableForRide :: "driver \<Rightarrow> int \<Rightarrow> real \<Rightarrow> failure + bool" where
  "isAvailableForRide d startTime dur =
     (if \<not> d_isOnline d then Inr False
      else case toLocaleDateString_weekday_lowercase startTime of
        Inl e \<Rightarrow> Inl e
      | Inr dayOfWeek \<Rightarrow>
          if dayOfWeek \<notin> set (d_availableDays d) then Inr False
          else (let startHour = getHours startTime;
                    endHour = fadd (real_of_int startHour) dur
                in Inr (startHour \<ge> d_workingStart d \<and> endHour \<le> real_of_int (d_workingEnd d))))"

text \<open>The constructors read \<open>data.rating || 0\<close>: any stored value that is not a
  non-zero number is taken as 0.\<close>

definition orZero :: "jsval \<Rightarrow> jsval" where
  "orZero v = (case v of Num r \<Rightarrow> Num r | _ \<Rightarrow> Num 0)"

text \<open>\<open>updateRating(newRating)\<close> computes the same average in both models and
  sends it with the new review count in one update. \<open>g_updateRating\<close> and
  \<open>d_updateRating\<close> give the stored row after that update.\<close>

definition newAverage :: "jsval \<Rightarrow> nat \<Rightarrow> jsval \<Rightarrow> jsval" where
  "newAverage oldRating oldReviews newRating =
     (let totalReviews = oldReviews + 1;
          r = js_div (js_add (js_mul oldRating (Num (real oldReviews))) newRating)
                     (Num (real totalReviews))
      in js_div (js_round (js_mul r (Num 10))) (Num 10))"

definition g_updateRating :: "jsval \<Rightarrow> guide \<Rightarrow> guide" where
  "g_updateRating newRating g =
     g\<lparr>g_rating := json_column (newAverage (orZero (g_rating g)) (g_totalReviews g) newRating)
                    (g_rating g),
       g_totalReviews := g_totalReviews g + 1\<rparr>"

definition d_updateRating :: "jsval \<Rightarrow> driver \<Rightarrow> driver" where
  "d_updateRating newRating d =
     d\<lparr>d_rating := json_column (newAverage (orZero (d_rating d)) (d_totalReviews d) newRating)
                    (d_rating d),
       d_totalReviews := d_totalReviews d + 1\<rparr>"

text \<open>\<open>Driver.calculatePrice(distance, duration, surgeMultiplier)\<close> and
  \<open>Driver.calculateSurgeMultiplier(demand, weather)\<close>; the latter passes the hour
  the wall clock shows (\<open>new Date().getHours()\<close>), here \<open>clockHour\<close>, before
  the helper reads the weekday.\<close>

definition calculatePrice :: "driver \<Rightarrow> real \<Rightarrow> real \<Rightarrow> real \<Rightarrow> real" where
  "calculatePrice d distance dur surgeMultiplier =
     (let basePrice = d_baseRate d;
          distancePrice = fmul distance (d_perKmRate d);
          timePrice = fmul dur (d_perMinuteRate d);
          totalPrice = fmul (fadd (fadd basePrice distancePrice) timePrice) surgeMultiplier
      in fdiv (math_round (fmul totalPrice 100)) 100)"

definition d_calculateSurgeMultiplier :: "nat \<Rightarrow> nat \<Rightarrow> nat \<Rightarrow> real \<Rightarrow> string \<Rightarrow> real" where
  "d_calculateSurgeMultiplier clockHour clockDay1 clockDay2 demand weather =
     calculateSurgeMultiplier clockDay1 clockDay2 (real clockHour) weather demand"

definition incrementBookings :: "guide \<Rightarrow> guide" where
  "incrementBookings g = g\<lparr>g_totalBookings := g_totalBookings g + 1\<rparr>"

definition incrementRides :: "driver \<Rightarrow> driver" where
  "incrementRides d = d\<lparr>d_totalRides := d_totalRides d + 1\<rparr>"

text \<open>The datastore helper (config/database.js) exports \<open>db\<close> with the tables
  \<open>users\<close>, \<open>guides\<close>, \<open>drivers\<close>, \<open>pois\<close> and \<open>bookings\<close>.
  \<open>db.drivers\<close> offers \<open>create\<close>, \<open>findById\<close>, \<open>findNearby\<close> and
  \<open>updateLocation\<close> and no \<open>update\<close>, and \<open>db\<close> has no member
  \<open>supabase\<close>. Calling the one and reading a property of the other raise a
  \<open>TypeError\<close>.\<close>

definition db_drivers_has_update :: bool where
  "db_drivers_has_update = False"

definition db_has_supabase :: bool where
  "db_has_supabase = False"

text \<open>\<open>Driver.update(updateData)\<close>, which \<open>updateRating\<close> and
  \<open>incrementRides\<close> of the driver go through: \<open>changes\<close> is the effect of the
  update on the row.\<close>

definition Driver_update :: "(driver \<Rightarrow> driver) \<Rightarrow> driver \<Rightarrow> failure + driver" where
  "Driver_update changes d =
     (if db_drivers_has_update then Inr (changes d) else Inl (ServerError ''TypeError''))"


section \<open>The datastore and the callers\<close>

record incident =
  i_id :: ident
  i_bookingId :: ident
  i_userId :: ident
  i_driverId :: "ident option"
  i_type :: string
  i_location :: "jsval \<times> jsval"
  i_message :: string
  i_status :: string
  i_createdAt :: int

record store =
  bookings :: "ident \<rightharpoonup> booking"
  guides :: "ident \<rightharpoonup> guide"
  drivers :: "ident \<rightharpoonup> driver"
  incidents :: "incident list"

text \<open>\<open>req.user\<close>.\<close>

record caller =
  uid :: ident
  role :: string

definition isStaff :: "caller \<Rightarrow> bool" where
  "isStaff u \<longleftrightarrow> role u \<in> {''admin'', ''moderator''}"

section \<open>Booking controller (controllers/bookingController.js)\<close>

text \<open>Every handler returns its response together with the datastore it leaves. A
  response is a failure (404, 403, 400 with the source's message, or an exception
  passed to \<open>next\<close>) or the payload of the success response.\<close>

record bookingRequest =
  rq_guideId :: "ident option"
  rq_driverId :: "ident option"
  rq_type :: string
  rq_startDate :: int
  rq_endDate :: int
  rq_duration :: real
  rq_totalAmount :: real

text \<open>\<open>Booking.create\<close>: the row inserted for a request; \<open>newId\<close> is the
  identifier \<open>uuid.v4()\<close> returns.\<close>

definition newBooking :: "ident \<Rightarrow> bookingRequest \<Rightarrow> booking" where
  "newBooking user rq =
     \<lparr>userId = user,
      guideId = (if truthy (rq_guideId rq) then rq_guideId rq else None),
      driverId = (if truthy (rq_driverId rq) then rq_driverId rq else None),
      btype = rq_type rq, startDate = rq_startDate rq, endDate = rq_endDate rq,
      duration = rq_duration rq, totalAmount = rq_totalAmount rq, commission = 0,
      status = ''pending'', cancelledAt = None, cancelledBy = None,
      cancellationReason = None, refundAmount = None, rating = Null, review = None,
      completedAt = None\<rparr>"

text \<open>An insert into \<open>bookings\<close> under the primary key \<open>newId\<close>; the
  database refuses a key that is taken.\<close>

definition insertBooking :: "ident \<Rightarrow> booking \<Rightarrow> store \<Rightarrow> store option" where
  "insertBooking newId b st =
     (if newId \<in> dom (bookings st) then None
      else Some (st\<lparr>bookings := (bookings st)(newId \<mapsto> b)\<rparr>))"

definition guideCheck :: "store \<Rightarrow> bookingRequest \<Rightarrow> failure option" where
  "guideCheck st rq =
     (if truthy (rq_guideId rq) then
        (case guides st (the (rq_guideId rq)) of
           None \<Rightarrow> Some NotFound
         | Some g \<Rightarrow>
            (case isAvailableForBooking g (rq_startDate rq) (rq_duration rq) of
               Inl e \<Rightarrow> Some e
             | Inr ok \<Rightarrow> if \<not> ok then Some (BadRequest ''Guide not available for the selected time'')
                         else None))
      else None)"

definition driverCheck :: "store \<Rightarrow> bookingRequest \<Rightarrow> failure option" where
  "driverCheck st rq =
     (if truthy (rq_driverId rq) then
        (case drivers st (the (rq_driverId rq)) of
           None \<Rightarrow> Some NotFound
         | Some d \<Rightarrow>
            (case isAvailableForRide d (rq_startDate rq) (rq_duration rq) of
               Inl e \<Rightarrow> Some e
             | Inr ok \<Rightarrow> if \<not> ok then Some (BadRequest ''Driver not available for the selected time'')
                         else None))
      else None)"

definition createBooking ::
  "ident \<Rightarrow> store \<Rightarrow> caller \<Rightarrow> bookingRequest \<Rightarrow> (failure + booking) \<times> store" where
  "createBooking newId st u rq =
     (case guideCheck st rq of
        Some e \<Rightarrow> (Inl e, st)
      | None \<Rightarrow>
         (case driverCheck st rq of
            Some e \<Rightarrow> (Inl e, st)
          | None \<Rightarrow>
             (case insertBooking newId (newBooking (uid u) rq) st of
                None \<Rightarrow> (Inl (ServerError ''duplicate key''), st)
              | Some st' \<Rightarrow> (Inr (newBooking (uid u) rq), st'))))"

definition isProviderOrStaff :: "caller \<Rightarrow> booking \<Rightarrow> bool" where
  "isProviderOrStaff u b \<longleftrightarrow>
     guideId b = Some (uid u) \<or> driverId b = Some (uid u) \<or> isStaff u"

definition confirmBooking :: "store \<Rightarrow> caller \<Rightarrow> ident \<Rightarrow> (failure + booking) \<times> store" where
  "confirmBooking st u bid =
     (case bookings st bid of
        None \<Rightarrow> (Inl NotFound, st)
      | Some b \<Rightarrow>
          if \<not> isProviderOrStaff u b then (Inl AccessDenied, st)
          else (let b' = confirm b
                in (Inr b', st\<lparr>bookings := (bookings st)(bid \<mapsto> b')\<rparr>)))"

definition startBooking :: "store \<Rightarrow> caller \<Rightarrow> ident \<Rightarrow> (failure + booking) \<times> store" where
  "startBooking st u bid =
     (case bookings st bid of
        None \<Rightarrow> (Inl NotFound, st)
      | Some b \<Rightarrow>
          if \<not> isProviderOrStaff u b then (Inl AccessDenied, st)
          else (let b' = start b
                in (Inr b', st\<lparr>bookings := (bookings st)(bid \<mapsto> b')\<rparr>)))"

text \<open>The provider updates that follow a booking write: \<open>if (booking.guideId)\<close>,
  find the guide and, if there is one, update its row; the same for the driver,
  whose update goes through \<open>Driver.update\<close>.\<close>

definition bumpGuide :: "ident option \<Rightarrow> (guide \<Rightarrow> guide) \<Rightarrow> store \<Rightarrow> store" where
  "bumpGuide gid f st =
     (if truthy gid then
        (case guides st (the gid) of
           None \<Rightarrow> st
         | Some g \<Rightarrow> st\<lparr>guides := (guides st)(the gid \<mapsto> f g)\<rparr>)
      else st)"

definition bumpDriver :: "ident option \<Rightarrow> (driver \<Rightarrow> driver) \<Rightarrow> store \<Rightarrow> failure + store" where
  "bumpDriver did f st =
     (if truthy did then
        (case drivers st (the did) of
           None \<Rightarrow> Inr st
         | Some d \<Rightarrow>
            (case Driver_update f d of
               Inl e \<Rightarrow> Inl e
             | Inr d' \<Rightarrow> Inr (st\<lparr>drivers := (drivers st)(the did \<mapsto> d')\<rparr>)))
      else Inr st)"

text \<open>\<open>completeBooking\<close>: an exception of the driver update reaches the caller
  after the booking row and the guide's count have been written.\<close>

definition completeBooking :: "int \<Rightarrow> store \<Rightarrow> caller \<Rightarrow> ident \<Rightarrow> (failure + booking) \<times> store" where
  "completeBooking now st u bid =
     (case bookings st bid of
        None \<Rightarrow> (Inl NotFound, st)
      | Some b \<Rightarrow>
          if \<not> isProviderOrStaff u b then (Inl AccessDenied, st)
          else (let b' = updateCommission (complete now b);
                    st1 = st\<lparr>bookings := (bookings st)(bid \<mapsto> b')\<rparr>;
                    st2 = bumpGuide (guideId b') incrementBookings st1
                in case bumpDriver (driverId b') incrementRides st2 of
                     Inl e \<Rightarrow> (Inl e, st2)
                   | Inr st3 \<Rightarrow> (Inr b', st3)))"

definition canCancel :: "caller \<Rightarrow> booking \<Rightarrow> bool" where
  "canCancel u b \<longleftrightarrow>
     userId b = uid u \<or> guideId b = Some (uid u) \<or> driverId b = Some (uid u) \<or> isStaff u"

text \<open>\<open>cancelBooking\<close> asks for the refund before \<open>booking.cancel\<close> has set the
  status, in the order of the source.\<close>

definition cancelBooking ::
  "int \<Rightarrow> store \<Rightarrow> caller \<Rightarrow> ident \<Rightarrow> string option \<Rightarrow> (failure + booking \<times> real) \<times> store" where
  "cancelBooking now st u bid reason =
     (case bookings st bid of
        None \<Rightarrow> (Inl NotFound, st)
      | Some b \<Rightarrow>
          if \<not> canCancel u b then (Inl AccessDenied, st)
          else if \<not> canBeCancelled now b
            then (Inl (BadRequest ''Booking cannot be cancelled at this time''), st)
          else (let refund = calculateRefundAmount now b;
                    b' = cancel now (uid u) reason refund b
                in (Inr (b', refund), st\<lparr>bookings := (bookings st)(bid \<mapsto> b')\<rparr>)))"

text \<open>\<open>rateBooking\<close>: the response carries the booking object, the datastore the
  row. An exception of the booking update reaches the caller before anything is
  written, an exception of the driver update after the booking row and the guide's
  average have been written.\<close>

definition rateBooking ::
  "store \<Rightarrow> caller \<Rightarrow> ident \<Rightarrow> jsval \<Rightarrow> string option \<Rightarrow> (failure + booking) \<times> store" where
  "rateBooking st u bid r rv =
     (if js_lt r (Num 1) \<or> js_gt r (Num 5)
        then (Inl (BadRequest ''Rating must be between 1 and 5''), st)
      else case bookings st bid of
        None \<Rightarrow> (Inl NotFound, st)
      | Some b \<Rightarrow>
          if userId b \<noteq> uid u then (Inl AccessDenied, st)
          else if status b \<noteq> ''completed''
            then (Inl (BadRequest ''Can only rate completed bookings''), st)
          else if \<not> integer_column_takes r
            then (Inl (ServerError ''invalid input syntax for type integer''), st)
          else (let b' = addRating r rv b;
                    st1 = st\<lparr>bookings := (bookings st)(bid \<mapsto> addRating_row r rv b)\<rparr>;
                    st2 = bumpGuide (guideId b') (g_updateRating r) st1
                in case bumpDriver (driverId b') (d_updateRating r) st2 of
                     Inl e \<Rightarrow> (Inl e, st2)
                   | Inr st3 \<Rightarrow> (Inr b', st3)))"

section \<open>Ride controller (controllers/rideController.js)\<close>

record sosRequest =
  sos_currentLat :: jsval
  sos_currentLng :: jsval
  sos_message :: "string option"

definition sosIncident :: "int \<Rightarrow> ident \<Rightarrow> ident \<Rightarrow> caller \<Rightarrow> booking \<Rightarrow> sosRequest \<Rightarrow> incident" where
  "sosIncident now newId bid u b rq =
     \<lparr>i_id = newId, i_bookingId = bid, i_userId = uid u, i_driverId = driverId b,
      i_type = ''sos'', i_location = (sos_currentLat rq, sos_currentLng rq),
      i_message = (case sos_message rq of
                     None \<Rightarrow> ''Emergency SOS triggered''
                   | Some m \<Rightarrow> if m = [] then ''Emergency SOS triggered'' else m),
      i_status = ''open'', i_createdAt = now\<rparr>"

text \<open>\<open>triggerSOS\<close>: its first statement is \<open>db.supabase.from('bookings')\<close>, a
  property read on the missing \<open>db.supabase\<close>, so the handler raises before it
  has read the booking. The statements after it look up the booking (404), compare
  its requester with the caller (403) and insert the incident into
  \<open>safety_incidents\<close>, a table that schema.sql does not declare, so the insert
  is answered with an error, which the handler throws. The status of the booking
  is not read. The alert that follows the insert is a call of
  \<open>notificationService.sendSOSAlert\<close>, which the notification service does not
  define, so that call raises as well.\<close>

definition schema_has_safety_incidents :: bool where
  "schema_has_safety_incidents = False"

definition triggerSOS ::
  "int \<Rightarrow> ident \<Rightarrow> store \<Rightarrow> caller \<Rightarrow> ident \<Rightarrow> sosRequest \<Rightarrow> (failure + ident) \<times> store" where
  "triggerSOS now newId st u bid rq =
     (if \<not> db_has_supabase then (Inl (ServerError ''TypeError''), st)
      else case bookings st bid of
        None \<Rightarrow> (Inl NotFound, st)
      | Some b \<Rightarrow>
          if userId b \<noteq> uid u then (Inl AccessDenied, st)
          else if \<not> schema_has_safety_incidents
            then (Inl (ServerError ''relation safety_incidents does not exist''), st)
          else (let inc = sosIncident now newId bid u b rq;
                    st1 = st\<lparr>incidents := incidents st @ [inc]\<rparr>
                in (Inl (ServerError ''TypeError''), st1)))"

section \<open>Duplicate detection for points of interest (database/schema.sql)\<close>

text \<open>
  The classifier is a PostgreSQL trigger. Its regular expressions are PostgreSQL's
  advanced regular expressions: \<open>\s\<close> is the class of white space (space, tab,
  newline, vertical tab, form feed, carriage return), and the escape \<open>\b\<close> is the
  backspace character (code 8); a word boundary would be written \<open>\y\<close>, \<open>\m\<close>
  or \<open>\M\<close>. \<open>TRIM\<close> removes spaces at both ends. Strings are lists of characters.
\<close>

definition is_space :: "char \<Rightarrow> bool" where
  "is_space c \<longleftrightarrow> c \<in> set [CHR '' '', CHR 0x09, CHR 0x0A, CHR 0x0B, CHR 0x0C, CHR 0x0D]"

definition is_alnum :: "char \<Rightarrow> bool" where
  "is_alnum c \<longleftrightarrow>
     c \<in> set ''abcdefghijklmnopqrstuvwxyzABCDEFGHIJKLMNOPQRSTUVWXYZ0123456789''"

text \<open>\<open>LOWER\<close> on the characters that survive the first replacement.\<close>

definition lower_char :: "char \<Rightarrow> char" where
  "lower_char c =
     (case map_of (zip ''ABCDEFGHIJKLMNOPQRSTUVWXYZ'' ''abcdefghijklmnopqrstuvwxyz'') c of
        None \<Rightarrow> c
      | Some l \<Rightarrow> l)"

definition lower :: "string \<Rightarrow> string" where
  "lower s = map lower_char s"

definition trim :: "string \<Rightarrow> string" where
  "trim s = rev (dropWhile (\<lambda>c. c = CHR '' '') (rev (dropWhile (\<lambda>c. c = CHR '' '') s)))"

text \<open>\<open>REGEXP_REPLACE(s, '[^a-zA-Z0-9\s]', '', 'g')\<close>.\<close>

definition strip_punctuation :: "string \<Rightarrow> string" where
  "strip_punctuation s = filter (\<lambda>c. is_alnum c \<or> is_space c) s"

text \<open>\<open>REGEXP_REPLACE(s, '\s+', ' ', 'g')\<close>: every maximal run of white space becomes
  one space. The flag tells whether the previous character was white space.\<close>

fun collapse_from :: "bool \<Rightarrow> string \<Rightarrow> string" where
  "collapse_from prev [] = []"
| "collapse_from prev (c # cs) =
     (if is_space c then (if prev then collapse_from True cs
                          else CHR '' '' # collapse_from True cs)
      else c # collapse_from False cs)"

definition collapse_spaces :: "string \<Rightarrow> string" where
  "collapse_spaces s = collapse_from False s"

text \<open>\<open>REGEXP_REPLACE(s, '\b(temple|shrine|...|cave)\b', '', 'gi')\<close>: a match is a
  backspace, one of the words in any letter case, and a backspace; matches are
  removed from left to right.\<close>

definition stoplist :: "string list" where
  "stoplist = [''temple'', ''shrine'', ''museum'', ''park'', ''beach'', ''lake'',
     ''mountain'', ''hill'', ''river'', ''cave'']"

definition stop_match :: "string \<Rightarrow> string option" where
  "stop_match s =
     (case s of
        [] \<Rightarrow> None
      | c # cs \<Rightarrow>
          if c \<noteq> CHR 0x08 then None
          else find (\<lambda>w. take (length w + 1) (lower cs) = w @ [CHR 0x08]) stoplist)"

function strip_stoplist :: "string \<Rightarrow> string" where
  "strip_stoplist [] = []"
| "strip_stoplist (c # cs) =
     (case stop_match (c # cs) of
        Some w \<Rightarrow> strip_stoplist (drop (length w + 1) cs)
      | None \<Rightarrow> c # strip_stoplist cs)"
  by pat_completeness auto
termination
  by (relation "measure length") auto

text \<open>\<open>POSITION(sub IN s)\<close>: the index, from 1, of the first occurrence, and 0 when
  there is none.\<close>

fun position_from :: "nat \<Rightarrow> string \<Rightarrow> string \<Rightarrow> nat" where
  "position_from i sub [] = (if sub = [] then i else 0)"
| "position_from i sub (c # cs) =
     (if take (length sub) (c # cs) = sub then i else position_from (i + 1) sub cs)"

definition position :: "string \<Rightarrow> string \<Rightarrow> nat" where
  "position sub s = position_from 1 sub s"

text \<open>The three normalisation statements of \<open>names_are_similar\<close>, in order.\<close>

definition normalize_name :: "string \<Rightarrow> string" where
  "normalize_name name =
     (let n1 = lower (trim (strip_punctuation name));
          n2 = strip_stoplist n1;
          n3 = trim (collapse_spaces n2)
      in n3)"

text \<open>The ratio is only reached with two non-empty names: an empty name is a
  substring of the other one.\<close>

definition names_are_similar :: "string \<Rightarrow> string \<Rightarrow> bool" where
  "names_are_similar name1 name2 =
     (let norm_name1 = normalize_name name1;
          norm_name2 = normalize_name name2
      in if norm_name1 = norm_name2 then True
         else if position norm_name1 norm_name2 > 0 \<or> position norm_name2 norm_name1 > 0
           then True
         else if real (min (length norm_name1) (length norm_name2)) /
                 real (max (length norm_name1) (length norm_name2)) > 0.6 then True
         else False)"

text \<open>An existing row as the trigger sees it: its name, its status, and the value of
  the trigger's distance expression \<open>6371 * acos(...)\<close> from the new row to it,
  in kilometres. The expression is evaluated by the database in double precision;
  \<open>None\<close> stands for the error \<open>input is out of range\<close> that \<open>acos\<close> raises
  when rounding has pushed its argument above 1, which happens for some pairs of
  equal coordinates.\<close>

record poi =
  p_name :: string
  p_status :: string
  p_distance :: "real option"

definition is_close :: "poi \<Rightarrow> bool" where
  "is_close p \<longleftrightarrow>
     p_status p \<in> {''active'', ''approved''} \<and>
     (case p_distance p of None \<Rightarrow> False | Some km \<Rightarrow> km \<le> 0.3)"

text \<open>\<open>auto_approve_poi\<close>: the approval status given to the new row named
  \<open>new_name\<close>; an error of the distance expression on a row of the two statuses
  aborts the insert.\<close>

definition auto_approve_poi :: "string \<Rightarrow> poi list \<Rightarrow> failure + string" where
  "auto_approve_poi new_name pois =
     (if list_ex (\<lambda>p. p_status p \<in> {''active'', ''approved''} \<and> p_distance p = None) pois
        then Inl (ServerError ''input is out of range'')
      else (let close_poi_count = length (filter is_close pois)
            in if close_poi_count > 0 then
                 (let similar_count =
                        length (filter (\<lambda>p. is_close p \<and> names_are_similar new_name (p_name p))
                                  pois)
                  in if similar_count > 0 then Inr ''needs_review'' else Inr ''approved'')
               else Inr ''approved''))"

text \<open>The similarity test in the words of the specification, to be compared with
  \<open>names_are_similar\<close>: lower-case, trim, collapse white space and drop the
  stoplist words, then compare.\<close>

fun split_words :: "string \<Rightarrow> string \<Rightarrow> string list" where
  "split_words acc [] = (if acc = [] then [] else [acc])"
| "split_words acc (c # cs) =
     (if is_space c then (if acc = [] then split_words [] cs else acc # split_words [] cs)
      else split_words (acc @ [c]) cs)"

fun join_words :: "string list \<Rightarrow> string" where
  "join_words [] = []"
| "join_words [w] = w"
| "join_words (w # ws) = w @ CHR '' '' # join_words ws"

definition spec_normalize :: "string \<Rightarrow> string" where
  "spec_normalize name =
     join_words (filter (\<lambda>w. w \<notin> set stoplist) (split_words [] (lower name)))"

definition is_substring :: "string \<Rightarrow> string \<Rightarrow> bool" where
  "is_substring a b \<longleftrightarrow> (\<exists>ps ss. b = ps @ a @ ss)"

definition spec_names_similar :: "string \<Rightarrow> string \<Rightarrow> bool" where
  "spec_names_similar name1 name2 \<longleftrightarrow>
     (let a = spec_normalize name1; b = spec_normalize name2
      in a = b \<or> is_substring a b \<or> is_substring b a \<or>
         real (min (length a) (length b)) / real (max (length a) (length b)) > 0.6)"

section \<open>Sample data\<close>

text \<open>A verified guide with rating 4.0 from 10 reviews, a booking of 1000 with that
  guide starting 30 hours after instant 0, and a datastore holding both.\<close>

definition ex_guide :: guide where
  "ex_guide = \<lparr>g_isAvailable = True, g_availableDays = [''monday''], g_workingStart = 8,
     g_workingEnd = 18, g_rating = Num 4.0, g_totalReviews = 10, g_totalBookings = 10,
     g_verificationStatus = ''verified''\<rparr>"

definition ex_booking :: "string \<Rightarrow> booking" where
  "ex_booking s = \<lparr>userId = ''u1'', guideId = Some ''g1'', driverId = None, btype = ''guide'',
     startDate = 108000000, endDate = 115200000, duration = 2, totalAmount = 1000,
     commission = 0, status = s, cancelledAt = None, cancelledBy = None,
     cancellationReason = None, refundAmount = None, rating = Null, review = None,
     completedAt = None\<rparr>"

definition ex_store :: "string \<Rightarrow> store" where
  "ex_store s = \<lparr>bookings = [''b1'' \<mapsto> ex_booking s], guides = [''g1'' \<mapsto> ex_guide],
     drivers = Map.empty, incidents = []\<rparr>"

definition ex_requester :: caller where
  "ex_requester = \<lparr>uid = ''u1'', role = ''tourist''\<rparr>"

definition ex_provider :: caller where
  "ex_provider = \<lparr>uid = ''g1'', role = ''guide''\<rparr>"

text \<open>The datastore after the requester has rated the completed sample booking with
  5 stars.\<close>

definition ex_rated_once :: store where
  "ex_rated_once = snd (rateBooking (ex_store ''completed'') ex_requester ''b1'' (Num 5) None)"

text \<open>The same booking in progress with a guide whose verification is still
  pending.\<close>

definition ex_unverified_guide :: guide where
  "ex_unverified_guide = ex_guide\<lparr>g_verificationStatus := ''pending''\<rparr>"

definition ex_unverified_store :: store where
  "ex_unverified_store = \<lparr>bookings = [''b1'' \<mapsto> ex_booking ''in_progress''],
     guides = [''g1'' \<mapsto> ex_unverified_guide], drivers = Map.empty, incidents = []\<rparr>"

text \<open>A request for the sample guide over the window of the sample booking, and a
  datastore with the guide and no booking.\<close>

definition ex_booking_request :: bookingRequest where
  "ex_booking_request = \<lparr>rq_guideId = Some ''g1'', rq_driverId = None, rq_type = ''guide'',
     rq_startDate = 108000000, rq_endDate = 115200000, rq_duration = 2,
     rq_totalAmount = 1000\<rparr>"

definition ex_idle_store :: store where
  "ex_idle_store = \<lparr>bookings = Map.empty, guides = [''g1'' \<mapsto> ex_guide],
     drivers = Map.empty, incidents = []\<rparr>"

text \<open>Two drivers with the same three rates.\<close>

definition ex_driver :: driver where
  "ex_driver = \<lparr>d_userId = ''ud1'', d_isOnline = True, d_baseRate = 300, d_perKmRate = 50,
     d_perMinuteRate = 5, d_availableDays = [''monday''], d_workingStart = 8,
     d_workingEnd = 18, d_rating = Num 4.5, d_totalReviews = 2, d_totalRides = 2,
     d_verificationStatus = ''verified''\<rparr>"

definition ex_other_driver :: driver where
  "ex_other_driver = ex_driver\<lparr>d_userId := ''ud2'', d_isOnline := False, d_totalRides := 40\<rparr>"

definition ex_sos :: sosRequest where
  "ex_sos = \<lparr>sos_currentLat = Num 6.03, sos_currentLng = Num 80.21, sos_message = None\<rparr>"

text \<open>An active point of interest for which the distance expression of the trigger
  gives 0.05 km (50 m) from the row being inserted.\<close>

definition ex_cave_shrine :: poi where
  "ex_cave_shrine = \<lparr>p_name = ''Dambulla Cave Shrine Museum'', p_status = ''active'',
     p_distance = Some 0.05\<rparr>"

section \<open>Evaluating double arithmetic\<close>

lemmas dbl_eval = dbl_def scale.simps round_half_even_def fadd_def fmul_def fdiv_def Let_def

text \<open>The double nearest to one tenth; whole numbers of moderate size are doubles.\<close>

lemma dbl_tenth: "dbl 0.1 = 3602879701896397 / 36028797018963968"
  by (simp add: dbl_eval)

lemma dbl_whole_samples: "dbl 1000 = 1000" "dbl 150 = 150" "dbl 100 = 100" "dbl 50 = 50"
  by (simp_all add: dbl_eval)

text \<open>Arithmetic on two ordinary numbers.\<close>

lemma js_num:
  "js_add (Num x) (Num y) = Num (fadd x y)"
  "js_mul (Num x) (Num y) = Num (fmul x y)"
  "js_div (Num x) (Num y) = Num (fdiv x y)"
  "js_round (Num x) = Num (math_round x)"
  by (simp_all add: js_add_def js_mul_def js_div_def js_round_def js_of_def)

section \<open>Cancellation and refund\<close>

lemma cancelBooking_refund_zero:
  "fst (cancelBooking now st u bid reason) = Inr (b', refund) \<Longrightarrow>
     refund = 0 \<and> refundAmount b' = Some 0"
  by (auto simp add: cancelBooking_def canBeCancelled_def calculateRefundAmount_def
      cancel_def Let_def split: option.splits if_splits)

text \<open>On a booking that is already cancelled \<open>calculateRefundAmount\<close> yields the
  tiers: everything above 24 hours, half between 2 and 24 hours, nothing below.\<close>

lemma calculateRefundAmount_tiers:
  assumes "status b = ''cancelled''"
  shows "hoursUntilStart now b > 24 \<Longrightarrow> calculateRefundAmount now b = totalAmount b"
    and "hoursUntilStart now b \<le> 24 \<Longrightarrow> hoursUntilStart now b > 2 \<Longrightarrow>
           calculateRefundAmount now b = totalAmount b * 0.5"
    and "hoursUntilStart now b \<le> 2 \<Longrightarrow> calculateRefundAmount now b = 0"
  using assms by (simp_all add: calculateRefundAmount_def)

text \<open>A cancel attempted 2 hours or less before the start, or on a booking that is
  neither pending nor confirmed, is rejected and leaves the datastore as it was.\<close>

lemma cancelBooking_window_closed:
  assumes "bookings st bid = Some b" "canCancel u b"
    and "hoursUntilStart now b \<le> 2 \<or> status b \<notin> {''pending'', ''confirmed''}"
  shows "cancelBooking now st u bid reason
       = (Inl (BadRequest ''Booking cannot be cancelled at this time''), st)"
  using assms by (auto simp add: cancelBooking_def canBeCancelled_def)

text \<open>
  C1. A pending booking of 1000 is cancelled by its requester 30 hours before its
  start, and likewise 10 hours before its start. The claim promises a refund of 1000
  and of 500; the handler computes the refund while the status is still
  \<open>pending\<close>, so \<open>calculateRefundAmount\<close> answers 0 and the booking is cancelled
  with \<open>refundAmount = 0\<close> both times.
\<close>

theorem cancelBooking_refund_30h:
  "hoursUntilStart 0 (ex_booking ''pending'') = 30 \<and>
   hoursUntilStart 72000000 (ex_booking ''pending'') = 10 \<and>
   totalAmount (ex_booking ''pending'') = 1000 \<and>
   fst (cancelBooking 0 (ex_store ''pending'') ex_requester ''b1'' None)
     = Inr (cancel 0 ''u1'' None 0 (ex_booking ''pending''), 0) \<and>
   fst (cancelBooking 72000000 (ex_store ''pending'') ex_requester ''b1'' None)
     = Inr (cancel 72000000 ''u1'' None 0 (ex_booking ''pending''), 0)"
  by (simp add: cancelBooking_def ex_store_def ex_booking_def ex_requester_def canCancel_def
      canBeCancelled_def hoursUntilStart_def calculateRefundAmount_def Let_def cancel_def)

section \<open>Transitions from a terminal state\<close>

text \<open>
  C3. On a completed booking, \<open>confirm\<close>, \<open>start\<close> and \<open>complete\<close> called by
  the booking's guide each succeed and overwrite the status: the three handlers
  check the caller and never the current status.
\<close>

theorem transitions_from_completed:
  "map_option status (bookings (snd (confirmBooking (ex_store ''completed'') ex_provider ''b1'')) ''b1'')
     = Some ''confirmed'' \<and>
   map_option status (bookings (snd (startBooking (ex_store ''completed'') ex_provider ''b1'')) ''b1'')
     = Some ''in_progress'' \<and>
   map_option completedAt (bookings (snd (completeBooking 7 (ex_store ''completed'') ex_provider ''b1'')) ''b1'')
     = Some (Some 7)"
  by (simp add: confirmBooking_def startBooking_def completeBooking_def ex_store_def
      ex_booking_def ex_provider_def isProviderOrStaff_def confirm_def start_def complete_def
      updateCommission_def bumpGuide_def bumpDriver_def truthy_def Let_def)

section \<open>Rating a booking\<close>

lemmas rate_defs = rateBooking_def js_lt_def js_gt_def addRating_def addRating_row_def
  json_column_def integer_column_takes_def bumpGuide_def bumpDriver_def truthy_def Let_def

text \<open>The running average in doubles: 4.0 over 10 reviews and a rating of 5 give 4.1,
  and 4.1 over 11 reviews and a rating of 1 give 3.8.\<close>

lemma newAverage_samples:
  "newAverage (Num 4) 10 (Num 5) = Num (dbl 4.1)"
  "newAverage (Num (dbl 4.1)) 11 (Num 1) = Num (dbl 3.8)"
  unfolding newAverage_def Let_def by (simp_all add: js_num math_round_def dbl_eval)

lemma g_updateRating_samples:
  "g_updateRating (Num 5) ex_guide = ex_guide\<lparr>g_rating := Num (dbl 4.1), g_totalReviews := 11\<rparr>"
  "g_updateRating (Num 1) (ex_guide\<lparr>g_rating := Num (dbl 4.1), g_totalReviews := 11\<rparr>)
     = ex_guide\<lparr>g_rating := Num (dbl 3.8), g_totalReviews := 12\<rparr>"
  by (simp_all add: g_updateRating_def ex_guide_def orZero_def newAverage_samples
      json_column_def)

lemma bookings_bumpGuide: "bookings (bumpGuide g f st) = bookings st"
  by (simp add: bumpGuide_def split: option.splits)

lemma guides_bumpGuide:
  "guides st g = Some gd \<Longrightarrow> g \<noteq> [] \<Longrightarrow> guides (bumpGuide (Some g) f st) g = Some (f gd)"
  by (simp add: bumpGuide_def truthy_def)

text \<open>A driver update always raises, so a handler that reaches one for an existing
  driver answers with the exception.\<close>

lemma bumpDriver_raises:
  "truthy did \<Longrightarrow> drivers st (the did) = Some d \<Longrightarrow>
     bumpDriver did f st = Inl (ServerError ''TypeError'')"
  by (simp add: bumpDriver_def Driver_update_def db_drivers_has_update_def)

lemma bumpDriver_failure: "bumpDriver did f st = Inl e \<Longrightarrow> e = ServerError ''TypeError''"
  by (auto simp add: bumpDriver_def Driver_update_def split: if_splits option.splits)

lemma bumpDriver_no_driver: "\<not> truthy did \<Longrightarrow> bumpDriver did f st = Inr st"
  by (simp add: bumpDriver_def)

lemma rateBooking_accepts:
  assumes "bookings st bid = Some b" "userId b = uid u" "status b = ''completed''"
    "\<not> js_lt r (Num 1)" "\<not> js_gt r (Num 5)" "\<not> truthy (driverId b)"
    "integer_column_takes r"
  shows "rateBooking st u bid r rv =
     (Inr (addRating r rv b),
      bumpGuide (guideId b) (g_updateRating r)
        (st\<lparr>bookings := (bookings st)(bid \<mapsto> addRating_row r rv b)\<rparr>))"
  using assms by (simp add: rateBooking_def Let_def addRating_def bumpDriver_no_driver)

text \<open>On a completed booking that names an existing driver, a rating by the requester
  is answered with the exception of the driver update, after the booking row and the
  guide's average have been written.\<close>

lemma rateBooking_with_driver_raises:
  assumes "bookings st bid = Some b" "userId b = uid u" "status b = ''completed''"
    "\<not> js_lt r (Num 1)" "\<not> js_gt r (Num 5)"
    "truthy (driverId b)" "drivers st (the (driverId b)) = Some d"
    "integer_column_takes r"
  shows "rateBooking st u bid r rv =
     (Inl (ServerError ''TypeError''),
      bumpGuide (guideId b) (g_updateRating r)
        (st\<lparr>bookings := (bookings st)(bid \<mapsto> addRating_row r rv b)\<rparr>))"
proof -
  let ?st2 = "bumpGuide (guideId b) (g_updateRating r)
        (st\<lparr>bookings := (bookings st)(bid \<mapsto> addRating_row r rv b)\<rparr>)"
  have "drivers ?st2 (the (driverId b)) = Some d"
    using assms(7) by (simp add: bumpGuide_def split: option.splits)
  then have "bumpDriver (driverId b) (d_updateRating r) ?st2 = Inl (ServerError ''TypeError'')"
    using assms(6) by (rule bumpDriver_raises [rotated])
  then show ?thesis
    using assms(1-5,8) by (simp add: rateBooking_def Let_def addRating_def)
qed

text \<open>A rating within the range that is not a whole number is refused by the
  datastore, and nothing is written.\<close>

lemma rateBooking_fractional_rating:
  assumes "bookings st bid = Some b" "userId b = uid u" "status b = ''completed''"
    "1 \<le> x" "x \<le> 5" "x \<noteq> of_int \<lfloor>x\<rfloor>"
  shows "rateBooking st u bid (Num x) rv =
     (Inl (ServerError ''invalid input syntax for type integer''), st)"
  using assms by (simp add: rateBooking_def js_lt_def js_gt_def integer_column_takes_def)

lemma ex_rated_once_eq:
  "ex_rated_once =
     \<lparr>bookings = [''b1'' \<mapsto> (ex_booking ''completed'')\<lparr>rating := Num 5\<rparr>],
      guides = [''g1'' \<mapsto> ex_guide\<lparr>g_rating := Num (dbl 4.1), g_totalReviews := 11\<rparr>],
      drivers = Map.empty, incidents = []\<rparr>"
  by (simp add: ex_rated_once_def rate_defs ex_store_def ex_booking_def ex_requester_def
      g_updateRating_samples)

text \<open>
  C4, as stated, fails. The sample booking has been rated 5 (its guide went from 4.0
  over 10 reviews to 4.1 over 11). A second \<open>rateBooking\<close> by the requester, with 1
  star, succeeds: the stored rating becomes 1 and the guide's average 3.8 over 12
  reviews.
\<close>

theorem rateBooking_second_call_succeeds:
  "map_option rating (bookings ex_rated_once ''b1'') = Some (Num 5) \<and>
   map_option g_rating (guides ex_rated_once ''g1'') = Some (Num (dbl 4.1)) \<and>
   fst (rateBooking ex_rated_once ex_requester ''b1'' (Num 1) None)
     = Inr ((ex_booking ''completed'')\<lparr>rating := Num 1\<rparr>) \<and>
   map_option rating
     (bookings (snd (rateBooking ex_rated_once ex_requester ''b1'' (Num 1) None)) ''b1'')
     = Some (Num 1) \<and>
   guides (snd (rateBooking ex_rated_once ex_requester ''b1'' (Num 1) None)) ''g1''
     = Some (ex_guide\<lparr>g_rating := Num (dbl 3.8), g_totalReviews := 12\<rparr>)"
  by (simp add: ex_rated_once_eq rate_defs ex_booking_def ex_requester_def
      g_updateRating_samples)

text \<open>
  C4, amended. On a completed booking that names no driver, every \<open>rateBooking\<close>
  call by the requester with a whole number of stars from 1 to 5 (the rating column
  holds integers) succeeds, a repeated call included: the first call stores its rating and review, the second
  call overwrites them, and the named guide receives the running-average update
  once per call.
\<close>

theorem rateBooking_repeated:
  assumes found: "bookings st bid = Some b"
    and requester: "userId b = uid u"
    and completed: "status b = ''completed''"
    and nodriver: "\<not> truthy (driverId b)"
    and k1: "1 \<le> k1" "k1 \<le> 5"
    and k2: "1 \<le> k2" "k2 \<le> 5"
  shows "fst (rateBooking st u bid (Num (of_int k1)) rv1) = Inr (addRating (Num (of_int k1)) rv1 b) \<and>
    bookings (snd (rateBooking st u bid (Num (of_int k1)) rv1)) bid
      = Some (addRating (Num (of_int k1)) rv1 b) \<and>
    fst (rateBooking (snd (rateBooking st u bid (Num (of_int k1)) rv1)) u bid (Num (of_int k2)) rv2)
      = Inr (addRating (Num (of_int k2)) rv2 (addRating (Num (of_int k1)) rv1 b)) \<and>
    bookings (snd (rateBooking (snd (rateBooking st u bid (Num (of_int k1)) rv1)) u bid
        (Num (of_int k2)) rv2)) bid
      = Some (addRating (Num (of_int k2)) rv2 (addRating (Num (of_int k1)) rv1 b)) \<and>
    (\<forall>g gd. guideId b = Some g \<longrightarrow> g \<noteq> [] \<longrightarrow> guides st g = Some gd \<longrightarrow>
       guides (snd (rateBooking (snd (rateBooking st u bid (Num (of_int k1)) rv1)) u bid
           (Num (of_int k2)) rv2)) g
         = Some (g_updateRating (Num (of_int k2)) (g_updateRating (Num (of_int k1)) gd)))"
proof -
  let ?r1 = "Num (of_int k1)" and ?r2 = "Num (of_int k2)"
  let ?b1 = "addRating ?r1 rv1 b"
  let ?st1 = "bumpGuide (guideId b) (g_updateRating ?r1)
           (st\<lparr>bookings := (bookings st)(bid \<mapsto> addRating_row ?r1 rv1 b)\<rparr>)"
  let ?b2 = "addRating ?r2 rv2 ?b1"
  let ?st2 = "bumpGuide (guideId b) (g_updateRating ?r2)
           (?st1\<lparr>bookings := (bookings ?st1)(bid \<mapsto> addRating_row ?r2 rv2 ?b1)\<rparr>)"
  have r1: "\<not> js_lt ?r1 (Num 1)" "\<not> js_gt ?r1 (Num 5)"
    using k1 by (simp_all add: js_lt_def js_gt_def)
  have r2: "\<not> js_lt ?r2 (Num 1)" "\<not> js_gt ?r2 (Num 5)"
    using k2 by (simp_all add: js_lt_def js_gt_def)
  have row: "addRating_row (Num x) rv c = addRating (Num x) rv c" for x rv c
    by (simp add: addRating_row_def addRating_def json_column_def)
  have whole: "integer_column_takes (Num (of_int k))" for k
    by (simp add: integer_column_takes_def)
  have first: "rateBooking st u bid ?r1 rv1 = (Inr ?b1, ?st1)"
    using rateBooking_accepts [OF found requester completed r1 nodriver whole] .
  have found1: "bookings ?st1 bid = Some ?b1"
    by (simp add: bookings_bumpGuide row)
  have same: "userId ?b1 = uid u" "status ?b1 = ''completed''"
    "guideId ?b1 = guideId b" "\<not> truthy (driverId ?b1)"
    using requester completed nodriver by (simp_all add: addRating_def)
  have second: "rateBooking ?st1 u bid ?r2 rv2 = (Inr ?b2, ?st2)"
    using rateBooking_accepts [OF found1 same(1) same(2) r2 same(4) whole] by (simp add: same)
  have store2: "bookings ?st2 bid = Some ?b2"
    by (simp add: bookings_bumpGuide row)
  have guide2: "guides ?st2 g = Some (g_updateRating ?r2 (g_updateRating ?r1 gd))"
    if "guideId b = Some g" "g \<noteq> []" "guides st g = Some gd" for g gd
    using that by (simp add: bumpGuide_def truthy_def)
  show ?thesis
    unfolding first fst_conv snd_conv second
    using found1 store2 guide2 by blast
qed

theorem rateBooking_repeated_witness:
  "fst (rateBooking (snd (rateBooking (ex_store ''completed'') ex_requester ''b1'' (Num 5) None))
          ex_requester ''b1'' (Num 1) None)
     = Inr (addRating (Num 1) None (addRating (Num 5) None (ex_booking ''completed''))) \<and>
   bookings (snd (rateBooking (snd (rateBooking (ex_store ''completed'') ex_requester ''b1''
            (Num 5) None)) ex_requester ''b1'' (Num 1) None)) ''b1''
     = Some (addRating (Num 1) None (addRating (Num 5) None (ex_booking ''completed''))) \<and>
   guides (snd (rateBooking (snd (rateBooking (ex_store ''completed'') ex_requester ''b1''
            (Num 5) None)) ex_requester ''b1'' (Num 1) None)) ''g1''
     = Some (g_updateRating (Num 1) (g_updateRating (Num 5) ex_guide))"
  using rateBooking_repeated [of "ex_store ''completed''" "''b1''" "ex_booking ''completed''"
      ex_requester 5 1 None None]
  by (simp add: ex_store_def ex_booking_def ex_requester_def truthy_def)

lemma newAverage_undefined: "newAverage old n Undefined = NaN"
  by (simp add: newAverage_def js_add_def js_mul_def js_div_def js_round_def js_of_def
      Let_def split: option.splits)

lemma g_updateRating_undefined:
  "g_updateRating Undefined gd = gd\<lparr>g_rating := Null, g_totalReviews := g_totalReviews gd + 1\<rparr>"
  by (simp add: g_updateRating_def newAverage_undefined json_column_def)

text \<open>
  C10, as stated, fails. The sample booking, completed and rated 5, with its guide at
  4.1 over 11 reviews, is rated again with a payload that has no \<open>rating\<close>. The
  call succeeds and the booking in the response carries \<open>undefined\<close>, but the
  stored row still holds 5: the missing value is not written as the booking's
  rating. The guide's stored average becomes \<open>null\<close> over 12 reviews.
\<close>

theorem rateBooking_undefined_keeps_stored_rating:
  "map_option rating (bookings ex_rated_once ''b1'') = Some (Num 5) \<and>
   fst (rateBooking ex_rated_once ex_requester ''b1'' Undefined None)
     = Inr ((ex_booking ''completed'')\<lparr>rating := Undefined\<rparr>) \<and>
   map_option rating
     (bookings (snd (rateBooking ex_rated_once ex_requester ''b1'' Undefined None)) ''b1'')
     = Some (Num 5) \<and>
   guides (snd (rateBooking ex_rated_once ex_requester ''b1'' Undefined None)) ''g1''
     = Some (ex_guide\<lparr>g_rating := Null, g_totalReviews := 12\<rparr>)"
  by (simp add: ex_rated_once_eq rate_defs g_updateRating_undefined ex_booking_def
      ex_requester_def)

text \<open>
  C10, amended. The range check of \<open>rateBooking\<close> is the only source of the
  response ``Rating must be between 1 and 5'', and it fires exactly when
  \<open>rating < 1\<close> or \<open>rating > 5\<close> evaluates to true. For \<open>rating = undefined\<close>
  both comparisons are false. On a completed booking that names no driver, rated by
  its requester, the call then succeeds: the booking in the response carries
  \<open>undefined\<close> as its rating, the stored row keeps the rating it had and takes
  the review, and the named guide's stored average becomes \<open>null\<close> with one more
  review counted.
\<close>

theorem rateBooking_undefined_rating:
  assumes found: "bookings st bid = Some b"
    and requester: "userId b = uid u"
    and completed: "status b = ''completed''"
    and nodriver: "\<not> truthy (driverId b)"
  shows "(\<forall>st' u' bid' r rv'.
       fst (rateBooking st' u' bid' r rv') = Inl (BadRequest ''Rating must be between 1 and 5'')
         \<longleftrightarrow> js_lt r (Num 1) \<or> js_gt r (Num 5)) \<and>
    \<not> js_lt Undefined (Num 1) \<and> \<not> js_gt Undefined (Num 5) \<and>
    fst (rateBooking st u bid Undefined rv) = Inr (b\<lparr>rating := Undefined, review := rv\<rparr>) \<and>
    bookings (snd (rateBooking st u bid Undefined rv)) bid = Some (b\<lparr>review := rv\<rparr>) \<and>
    (\<forall>g gd. guideId b = Some g \<longrightarrow> g \<noteq> [] \<longrightarrow> guides st g = Some gd \<longrightarrow>
       guides (snd (rateBooking st u bid Undefined rv)) g
         = Some (gd\<lparr>g_rating := Null, g_totalReviews := g_totalReviews gd + 1\<rparr>))"
proof -
  have check: "fst (rateBooking st' u' bid' r rv') = Inl (BadRequest ''Rating must be between 1 and 5'')
         \<longleftrightarrow> js_lt r (Num 1) \<or> js_gt r (Num 5)" for st' u' bid' r rv'
    by (auto simp add: rateBooking_def Let_def dest: bumpDriver_failure
        split: option.splits sum.splits)
  have pass: "\<not> js_lt Undefined (Num 1)" "\<not> js_gt Undefined (Num 5)"
    by (simp_all add: js_lt_def js_gt_def)
  have call: "rateBooking st u bid Undefined rv =
     (Inr (addRating Undefined rv b),
      bumpGuide (guideId b) (g_updateRating Undefined)
        (st\<lparr>bookings := (bookings st)(bid \<mapsto> addRating_row Undefined rv b)\<rparr>))"
    using rateBooking_accepts [OF found requester completed pass nodriver]
    by (simp add: integer_column_takes_def)
  have guide: "guides (snd (rateBooking st u bid Undefined rv)) g
         = Some (gd\<lparr>g_rating := Null, g_totalReviews := g_totalReviews gd + 1\<rparr>)"
    if "guideId b = Some g" "g \<noteq> []" "guides st g = Some gd" for g gd
    using that by (simp add: call bumpGuide_def truthy_def g_updateRating_undefined)
  have stored: "bookings (snd (rateBooking st u bid Undefined rv)) bid = Some (b\<lparr>review := rv\<rparr>)"
    by (simp add: call bookings_bumpGuide addRating_row_def json_column_def)
  have result: "fst (rateBooking st u bid Undefined rv) = Inr (b\<lparr>rating := Undefined, review := rv\<rparr>)"
    by (simp add: call addRating_def)
  show ?thesis
    using check pass result guide stored by blast
qed

theorem rateBooking_undefined_rating_witness:
  "fst (rateBooking (ex_store ''completed'') ex_requester ''b1'' Undefined None)
     = Inr ((ex_booking ''completed'')\<lparr>rating := Undefined, review := None\<rparr>) \<and>
   bookings (snd (rateBooking (ex_store ''completed'') ex_requester ''b1'' Undefined None)) ''b1''
     = Some ((ex_booking ''completed'')\<lparr>review := None\<rparr>) \<and>
   guides (snd (rateBooking (ex_store ''completed'') ex_requester ''b1'' Undefined None)) ''g1''
     = Some (ex_guide\<lparr>g_rating := Null, g_totalReviews := g_totalReviews ex_guide + 1\<rparr>)"
  using rateBooking_undefined_rating [of "ex_store ''completed''" "''b1''"
      "ex_booking ''completed''" ex_requester None]
  by (simp add: ex_store_def ex_booking_def ex_requester_def truthy_def)

section \<open>Commission\<close>

text \<open>The commission helper does hold both rates of the claim for a guide: 10% when
  told that the guide is verified and 15% when told that the guide is not.\<close>

lemma calculateGuideCommission_rates:
  "calculateGuideCommission 1000 True = 100" "calculateGuideCommission 1000 False = 150"
  "calculateDriverCommission 1000 = 50"
  unfolding calculateGuideCommission_def calculateDriverCommission_def Let_def
  by (simp_all add: dbl_eval)

lemma calculateCommission_guide_only:
  "truthy (guideId b) \<Longrightarrow> \<not> truthy (driverId b) \<Longrightarrow>
     calculateCommission b = dbl (calculateGuideCommission (totalAmount b) True)"
  by (simp add: calculateCommission_def Let_def fadd_def)

text \<open>The commission a booking is charged does not depend on the guide at all: it is
  a function of the booking alone.\<close>

lemma completeBooking_commission:
  assumes "fst (completeBooking now st u bid) = Inr b'" "truthy (guideId b')"
    "\<not> truthy (driverId b')"
  shows "commission b' = dbl (calculateGuideCommission (totalAmount b') True)"
proof -
  from assms(1) have "commission b' = calculateCommission b'"
    by (auto simp add: completeBooking_def Let_def updateCommission_def complete_def
        calculateCommission_def split: option.splits if_splits sum.splits)
  then show ?thesis
    using assms(2,3) by (simp add: calculateCommission_guide_only)
qed

text \<open>
  C5. The sample booking of 1000 is in progress with guide \<open>g1\<close>, whose
  verification status is \<open>pending\<close>, and names no driver. Its guide completes it.
  The claim promises a commission of 15%, which is 150; the booking is charged 100,
  the rate of a verified guide, because \<open>calculateCommission\<close> passes
  \<open>isVerified = true\<close> whatever the guide's status is.
\<close>

theorem unverified_guide_is_charged_ten_percent:
  "map_option g_verificationStatus (guides ex_unverified_store ''g1'') = Some ''pending'' \<and>
   map_option totalAmount (bookings ex_unverified_store ''b1'') = Some 1000 \<and>
   calculateGuideCommission 1000 False = 150 \<and>
   fst (completeBooking 9 ex_unverified_store ex_provider ''b1'')
     = Inr ((ex_booking ''completed'')\<lparr>commission := 100, completedAt := Some 9\<rparr>) \<and>
   map_option commission
     (bookings (snd (completeBooking 9 ex_unverified_store ex_provider ''b1'')) ''b1'')
     = Some 100"
proof -
  have charged: "calculateCommission (complete 9 (ex_booking ''in_progress'')) = 100"
    by (simp add: calculateCommission_guide_only truthy_def complete_def ex_booking_def
        calculateGuideCommission_rates dbl_whole_samples)
  show ?thesis
    by (simp add: completeBooking_def ex_unverified_store_def ex_unverified_guide_def
        ex_provider_def isProviderOrStaff_def updateCommission_def charged
        calculateGuideCommission_rates bumpGuide_def bumpDriver_def truthy_def Let_def)
      (simp add: complete_def ex_booking_def)
qed

section \<open>Surge multiplier\<close>

text \<open>
  C7, as stated, fails. Two invocations of \<open>calculateSurgeMultiplier\<close> with the same
  arguments (hour 12, clear weather, demand 0.5) return 1.1 when the wall clock
  shows a Sunday and 1 when it shows a Monday. Two invocations of the driver's
  \<open>calculateSurgeMultiplier\<close> with the same arguments, on the same Monday, return
  1.2 when the clock shows 8 and 1 when it shows 12.
\<close>

theorem surge_depends_on_clock:
  "calculateSurgeMultiplier 0 0 12 ''clear'' 0.5 = dbl 1.1 \<and>
   calculateSurgeMultiplier 1 1 12 ''clear'' 0.5 = 1 \<and>
   d_calculateSurgeMultiplier 8 1 1 0.5 ''clear'' = dbl 1.2 \<and>
   d_calculateSurgeMultiplier 12 1 1 0.5 ''clear'' = 1 \<and>
   dbl 1.1 \<noteq> 1 \<and> dbl 1.2 \<noteq> 1"
  unfolding calculateSurgeMultiplier_def d_calculateSurgeMultiplier_def Let_def
  by (simp add: dbl_eval)

text \<open>
  C7, amended. \<open>calculateSurgeMultiplier(time, weather, demand)\<close> is determined by
  its three arguments together with the outcome of the weekend test it makes on the
  wall clock (the first reading of the weekday is 0, or the second is 6): two
  invocations with identical arguments return the same multiplier whenever that
  test has the same outcome. The driver's \<open>calculateSurgeMultiplier(demand,
  weather)\<close> moreover takes the hour from the wall clock: two invocations with
  identical arguments return the same multiplier whenever the clock shows the same
  hour and the weekend test has the same outcome. \<open>calculatePrice\<close> returns the
  same price for identical arguments and identical rates of the driver.
\<close>

theorem surge_determined_by_arguments_and_clock:
  "(((clockDay1 = 0 \<or> clockDay2 = 6) \<longleftrightarrow> (clockDay1' = 0 \<or> clockDay2' = 6)) \<longrightarrow>
      calculateSurgeMultiplier clockDay1 clockDay2 time weather demand
        = calculateSurgeMultiplier clockDay1' clockDay2' time weather demand) \<and>
   (clockHour = clockHour' \<and>
      ((clockDay1 = 0 \<or> clockDay2 = 6) \<longleftrightarrow> (clockDay1' = 0 \<or> clockDay2' = 6)) \<longrightarrow>
      d_calculateSurgeMultiplier clockHour clockDay1 clockDay2 demand weather
        = d_calculateSurgeMultiplier clockHour' clockDay1' clockDay2' demand weather) \<and>
   (d_baseRate d = d_baseRate d' \<and> d_perKmRate d = d_perKmRate d' \<and>
      d_perMinuteRate d = d_perMinuteRate d' \<longrightarrow>
      calculatePrice d distance dur surgeMultiplier
        = calculatePrice d' distance dur surgeMultiplier)"
proof (intro conjI impI)
  assume "(clockDay1 = 0 \<or> clockDay2 = 6) \<longleftrightarrow> (clockDay1' = 0 \<or> clockDay2' = 6)"
  then show "calculateSurgeMultiplier clockDay1 clockDay2 time weather demand
        = calculateSurgeMultiplier clockDay1' clockDay2' time weather demand"
    unfolding calculateSurgeMultiplier_def by (simp only:)
next
  assume "clockHour = clockHour' \<and>
      ((clockDay1 = 0 \<or> clockDay2 = 6) \<longleftrightarrow> (clockDay1' = 0 \<or> clockDay2' = 6))"
  then show "d_calculateSurgeMultiplier clockHour clockDay1 clockDay2 demand weather
        = d_calculateSurgeMultiplier clockHour' clockDay1' clockDay2' demand weather"
    unfolding d_calculateSurgeMultiplier_def calculateSurgeMultiplier_def by (simp only:)
next
  assume "d_baseRate d = d_baseRate d' \<and> d_perKmRate d = d_perKmRate d' \<and>
      d_perMinuteRate d = d_perMinuteRate d'"
  then show "calculatePrice d distance dur surgeMultiplier
        = calculatePrice d' distance dur surgeMultiplier"
    unfolding calculatePrice_def by (simp only:)
qed

theorem surge_determined_by_arguments_and_clock_witness:
  "calculateSurgeMultiplier 2 2 8 ''rain'' 0.5 = calculateSurgeMultiplier 3 3 8 ''rain'' 0.5 \<and>
   calculateSurgeMultiplier 0 5 8 ''rain'' 0.5 = calculateSurgeMultiplier 6 6 8 ''rain'' 0.5 \<and>
   d_calculateSurgeMultiplier 8 2 2 0.5 ''rain'' = d_calculateSurgeMultiplier 8 3 3 0.5 ''rain'' \<and>
   calculatePrice ex_driver 10 20 1 = calculatePrice ex_other_driver 10 20 1"
  using surge_determined_by_arguments_and_clock [of 2 2 3 3 8 "''rain''" "0.5" 8 8
      ex_driver ex_other_driver 10 20 1]
    surge_determined_by_arguments_and_clock [of 0 5 6 6 8 "''rain''" "0.5" 8 8
      ex_driver ex_other_driver 10 20 1]
  by (simp add: ex_driver_def ex_other_driver_def)

section \<open>Creating bookings\<close>

lemmas create_defs = createBooking_def guideCheck_def driverCheck_def isAvailableForBooking_def
  isAvailableForRide_def toLocaleDateString_weekday_lowercase_def insertBooking_def
  newBooking_def truthy_def

text \<open>\<open>createBooking\<close> never reads the bookings of the provider: given an unused
  identifier, its response is the same for any two datastores that agree on guides
  and drivers.\<close>

lemma createBooking_ignores_existing_bookings:
  assumes "guides st = guides st'" "drivers st = drivers st'"
    "newId \<notin> dom (bookings st)" "newId \<notin> dom (bookings st')"
  shows "fst (createBooking newId st u rq) = fst (createBooking newId st' u rq)"
  using assms
  by (simp add: createBooking_def guideCheck_def driverCheck_def insertBooking_def
      split: option.splits)

text \<open>A request that names an existing guide or driver is never answered with a
  booking: the provider is reported unavailable when its flag is off, and the
  weekday formatting raises when the flag is on. The datastore stays as it was.\<close>

lemma createBooking_with_guide_never_inserts:
  assumes "truthy (rq_guideId rq)" "guides st (the (rq_guideId rq)) = Some g"
  shows "createBooking newId st u rq =
     (Inl (if g_isAvailable g then ServerError ''RangeError''
           else BadRequest ''Guide not available for the selected time''), st)"
  using assms
  by (simp add: createBooking_def guideCheck_def isAvailableForBooking_def
      toLocaleDateString_weekday_lowercase_def)

text \<open>
  C2. Guide \<open>g1\<close>, available, holds a pending booking from 108000000 to
  115200000. A \<open>createBooking\<close> for the same guide and the same window is not
  answered with a scheduling conflict: it is answered with the \<open>RangeError\<close> of
  the weekday formatting, and so is the same request when the guide has no booking
  at all. The bookings of the guide are never read.
\<close>

theorem createBooking_overlap_is_not_a_conflict:
  "bookings (ex_store ''pending'') ''b1'' = Some (ex_booking ''pending'') \<and>
   guideId (ex_booking ''pending'') = rq_guideId ex_booking_request \<and>
   startDate (ex_booking ''pending'') = rq_startDate ex_booking_request \<and>
   endDate (ex_booking ''pending'') = rq_endDate ex_booking_request \<and>
   bookings ex_idle_store = Map.empty \<and>
   createBooking ''b2'' (ex_store ''pending'') ex_requester ex_booking_request
     = (Inl (ServerError ''RangeError''), ex_store ''pending'') \<and>
   createBooking ''b2'' ex_idle_store ex_requester ex_booking_request
     = (Inl (ServerError ''RangeError''), ex_idle_store)"
  by (simp add: create_defs ex_store_def ex_idle_store_def ex_booking_def
      ex_booking_request_def ex_guide_def)

section \<open>SOS\<close>

text \<open>\<open>triggerSOS\<close> raises for every input and leaves the datastore as it was.\<close>

lemma triggerSOS_raises:
  "triggerSOS now newId st u bid rq = (Inl (ServerError ''TypeError''), st)"
  by (simp add: triggerSOS_def db_has_supabase_def)

text \<open>
  C9. The requester of the sample booking, which is in progress, triggers an SOS.
  The claim promises a new incident; the handler raises a \<open>TypeError\<close> at its
  first statement and the list of incidents stays empty.
\<close>

theorem triggerSOS_creates_no_incident:
  "bookings (ex_store ''in_progress'') ''b1'' = Some (ex_booking ''in_progress'') \<and>
   userId (ex_booking ''in_progress'') = uid ex_requester \<and>
   triggerSOS 5 ''i1'' (ex_store ''in_progress'') ex_requester ''b1'' ex_sos
     = (Inl (ServerError ''TypeError''), ex_store ''in_progress'') \<and>
   incidents (snd (triggerSOS 5 ''i1'' (ex_store ''in_progress'') ex_requester ''b1'' ex_sos))
     = []"
  by (simp add: triggerSOS_def db_has_supabase_def ex_store_def ex_booking_def
      ex_requester_def)

section \<open>Duplicate detection\<close>

lemma stop_match_no_backspace: "CHR 0x08 \<notin> set s \<Longrightarrow> stop_match s = None"
  by (cases s) (auto simp add: stop_match_def)

lemma strip_stoplist_no_backspace: "CHR 0x08 \<notin> set s \<Longrightarrow> strip_stoplist s = s"
proof (induction s)
  case Nil
  then show ?case by simp
next
  case (Cons c cs)
  from Cons.prems have "stop_match (c # cs) = None"
    by (rule stop_match_no_backspace)
  with Cons show ?case by simp
qed

lemma lower_char_backspace: "lower_char c = CHR 0x08 \<Longrightarrow> c = CHR 0x08"
  by (auto simp add: lower_char_def split: option.splits if_splits)

lemma set_trim: "c \<in> set (trim s) \<Longrightarrow> c \<in> set s"
  by (auto simp add: trim_def dest!: set_dropWhileD)

lemma no_backspace_after_first_step:
  "CHR 0x08 \<notin> set (lower (trim (strip_punctuation name)))"
proof
  assume "CHR 0x08 \<in> set (lower (trim (strip_punctuation name)))"
  then obtain c where c: "c \<in> set (trim (strip_punctuation name))" "lower_char c = CHR 0x08"
    by (auto simp add: lower_def)
  then have "c = CHR 0x08" by (simp add: lower_char_backspace)
  moreover from c(1) have "c \<in> set (strip_punctuation name)"
    by (rule set_trim)
  ultimately show False
    by (simp add: strip_punctuation_def is_alnum_def is_space_def)
qed

text \<open>The statement that should remove the stoplist words removes nothing, for every
  name: its pattern asks for a backspace on each side of the word, and the first
  statement has deleted every character that is not a letter, a digit or white
  space.\<close>

lemma normalize_name_eq:
  "normalize_name name = trim (collapse_spaces (lower (trim (strip_punctuation name))))"
  by (simp add: normalize_name_def Let_def strip_stoplist_no_backspace no_backspace_after_first_step)

lemmas norm_defs = normalize_name_eq lower_def lower_char_def trim_def strip_punctuation_def
  is_alnum_def is_space_def collapse_spaces_def

lemma normalize_samples:
  "normalize_name ''Dambulla Temple'' = ''dambulla temple''"
  "normalize_name ''Dambulla Cave Shrine Museum'' = ''dambulla cave shrine museum''"
  "normalize_name ''Galle Fort'' = ''galle fort''"
  "normalize_name ''Galle Fort Museum'' = ''galle fort museum''"
  "normalize_name ''Jungle Beach Cafe'' = ''jungle beach cafe''"
  by (simp_all add: norm_defs)

lemma spec_normalize_samples:
  "spec_normalize ''Dambulla Temple'' = ''dambulla''"
  "spec_normalize ''Dambulla Cave Shrine Museum'' = ''dambulla''"
  "spec_normalize ''Jungle Beach Cafe'' = ''jungle cafe''"
  "spec_normalize ''Galle Fort'' = ''galle fort''"
  by (simp_all add: spec_normalize_def lower_def lower_char_def is_space_def stoplist_def)

text \<open>The first example of the claim holds of the trigger, by the substring test. The
  second holds of the trigger as well, but not of the rule the claim states: with
  ``beach'' stripped the names have 11 and 10 characters, and 10/11 exceeds 0.6.\<close>

lemma galle_fort_example:
  "auto_approve_poi ''Galle Fort''
     [\<lparr>p_name = ''Galle Fort Museum'', p_status = ''active'', p_distance = Some 0.05\<rparr>]
   = Inr ''needs_review''"
  by (simp add: auto_approve_poi_def is_close_def names_are_similar_def normalize_samples
      position_def Let_def)

lemma jungle_beach_cafe_example:
  "spec_names_similar ''Jungle Beach Cafe'' ''Galle Fort''"
  "auto_approve_poi ''Jungle Beach Cafe''
     [\<lparr>p_name = ''Galle Fort'', p_status = ''active'', p_distance = Some 0.05\<rparr>]
   = Inr ''approved''"
  by (simp_all add: spec_names_similar_def spec_normalize_samples auto_approve_poi_def
      is_close_def names_are_similar_def normalize_samples position_def Let_def)

text \<open>
  C6. ``Dambulla Temple'' is submitted 50 m from the active ``Dambulla Cave Shrine
  Museum''. By the rule of the claim the two names are similar: once the stoplist
  words are stripped both are ``dambulla'', so the claim asks for \<open>needs_review\<close>.
  The trigger compares ``dambulla temple'' with ``dambulla cave shrine museum''
  (neither contains the other, 15 against 27 characters), finds them not similar and
  answers \<open>approved\<close>.
\<close>

theorem dambulla_temple_is_approved:
  "is_close ex_cave_shrine \<and>
   spec_names_similar ''Dambulla Temple'' (p_name ex_cave_shrine) \<and>
   \<not> names_are_similar ''Dambulla Temple'' (p_name ex_cave_shrine) \<and>
   auto_approve_poi ''Dambulla Temple'' [ex_cave_shrine] = Inr ''approved''"
  by (simp add: ex_cave_shrine_def is_close_def spec_names_similar_def spec_normalize_samples
      auto_approve_poi_def names_are_similar_def normalize_samples position_def Let_def)

end
